theory Spec2Isabelle
  imports Complex_Main
begin

section \<open>Data model\<close>

text \<open>
  The program is a single Python module, \<^verbatim>\<open>app.py\<close>. It downloads a price history,
  keeps the adjusted closing price, fits a forecasting model, forecasts a number of days
  chosen from a drop-down list and scores the fit with three error metrics.

  A calendar date is its day number. A Python float is a real number, or NaN, written
  \<open>None\<close>; arithmetic on floats is exact arithmetic on the reals, so rounding, overflow
  and the infinities are outside this model. The section on double precision computes the
  metrics a second time, in the arithmetic of the machine, for the statement that depends
  on the rounding.
\<close>

type_synonym date = int

type_synonym pyfloat = "real option"

datatype error = KeyError | ValueError | TypeError

text \<open>A column of a table holds timestamps or floats.\<close>

datatype column = Stamps "date list" | Floats "pyfloat list"

fun col_len :: "column \<Rightarrow> nat" where
  "col_len (Stamps ts) = length ts"
| "col_len (Floats vs) = length vs"

text \<open>
  The table that the download returns: rows indexed by date (the index may have a name),
  with named columns of floats. Two columns may have the same name.
\<close>

record indexed_frame =
  index_name :: "string option"
  index :: "date list"
  columns :: "(string \<times> pyfloat list) list"

text \<open>
  A table whose index is the row number \<open>0..<nrows\<close>, with named columns. Two columns may
  have the same name.
\<close>

record frame =
  nrows :: nat
  cols :: "(string \<times> column) list"

text \<open>
  What \<^verbatim>\<open>df[name]\<close> gives: the column of that name, or, when several columns have
  that name, the table of these columns with its number of rows.
\<close>

datatype selection = Series column | Table nat "column list"

text \<open>A chart drawn by the plotting functions of the forecasting library.\<close>

datatype figure = Figure

section \<open>Table operations used by the program\<close>

text \<open>
  \<^verbatim>\<open>df[[names]]\<close>: for each listed name in turn, every column of that name; a name
  without a column raises. The index is kept.
\<close>

definition getitem_list :: "string list \<Rightarrow> indexed_frame \<Rightarrow> error + indexed_frame" where
  "getitem_list names fr =
     (if list_all (\<lambda>n. n \<in> set (map fst (columns fr))) names
      then Inr (fr\<lparr>columns := concat (map (\<lambda>n. filter (\<lambda>(m, vs). m = n) (columns fr)) names)\<rparr>)
      else Inl KeyError)"

text \<open>The same selection on a table with numbered rows.\<close>

definition getitem_list_numbered :: "string list \<Rightarrow> frame \<Rightarrow> error + frame" where
  "getitem_list_numbered names fr =
     (if list_all (\<lambda>n. n \<in> set (map fst (cols fr))) names
      then Inr (fr\<lparr>cols := concat (map (\<lambda>n. filter (\<lambda>(m, c). m = n) (cols fr)) names)\<rparr>)
      else Inl KeyError)"

text \<open>
  \<^verbatim>\<open>df.reset_index()\<close>: the index becomes the first column, under the index's name,
  and the rows are numbered. An index without a name goes under \<^verbatim>\<open>index\<close>, or
  under \<^verbatim>\<open>level_0\<close> when there is a column \<^verbatim>\<open>index\<close> already. A column of the
  chosen name already there raises.
\<close>

definition reset_index :: "indexed_frame \<Rightarrow> error + frame" where
  "reset_index fr =
     (let name = (case index_name fr of
                    None \<Rightarrow> if ''index'' \<in> set (map fst (columns fr)) then ''level_0'' else ''index''
                  | Some n \<Rightarrow> n) in
      if name \<in> set (map fst (columns fr)) then Inl ValueError
      else Inr \<lparr>nrows = length (index fr),
                cols = (name, Stamps (index fr)) # map (\<lambda>(n, vs). (n, Floats vs)) (columns fr)\<rparr>)"

text \<open>\<^verbatim>\<open>df.rename(columns=mapper)\<close>: columns named in the mapper get their new name.\<close>

definition rename_columns :: "(string \<times> string) list \<Rightarrow> frame \<Rightarrow> frame" where
  "rename_columns mapper fr =
     fr\<lparr>cols := map (\<lambda>(n, c). (case map_of mapper n of None \<Rightarrow> n | Some n' \<Rightarrow> n', c)) (cols fr)\<rparr>"

text \<open>\<^verbatim>\<open>df[name]\<close>: a missing name raises.\<close>

definition getitem :: "string \<Rightarrow> frame \<Rightarrow> error + selection" where
  "getitem name fr =
     (case map snd (filter (\<lambda>(n, c). n = name) (cols fr)) of
        [] \<Rightarrow> Inl KeyError
      | [c] \<Rightarrow> Inr (Series c)
      | c # d # cs \<Rightarrow> Inr (Table (nrows fr) (c # d # cs)))"

text \<open>The first \<open>n\<close> values of a column, all of them when there are fewer.\<close>

fun take_col :: "nat \<Rightarrow> column \<Rightarrow> column" where
  "take_col n (Stamps ts) = Stamps (take n ts)"
| "take_col n (Floats vs) = Floats (take n vs)"

text \<open>\<^verbatim>\<open>selection[:n]\<close> for \<open>n \<ge> 0\<close>: the first \<open>n\<close> rows.\<close>

fun slice_to :: "nat \<Rightarrow> selection \<Rightarrow> selection" where
  "slice_to n (Series c) = Series (take_col n c)"
| "slice_to n (Table r cs) = Table (min n r) (map (take_col n) cs)"

text \<open>\<^verbatim>\<open>df.head()\<close>: the first five rows.\<close>

definition head :: "frame \<Rightarrow> frame" where
  "head fr = \<lparr>nrows = min 5 (nrows fr), cols = map (\<lambda>(n, c). (n, take_col 5 c)) (cols fr)\<rparr>"

section \<open>Fetching the price history\<close>

text \<open>
  \<^verbatim>\<open>fetch_stock_data\<close>, lines 11 to 15. The download is the environment's: it is a
  parameter.
\<close>

definition fetch_stock_data ::
  "(string \<Rightarrow> date \<Rightarrow> date \<Rightarrow> indexed_frame) \<Rightarrow> string \<Rightarrow> date \<Rightarrow> date \<Rightarrow> error + frame" where
  "fetch_stock_data yf_download ticker_symbol start_date end_date =
     (let stock_data = yf_download ticker_symbol start_date end_date in
      case getitem_list [''Adj Close''] stock_data of
        Inl e \<Rightarrow> Inl e
      | Inr sel \<Rightarrow>
          (case reset_index sel of
             Inl e \<Rightarrow> Inl e
           | Inr df \<Rightarrow> Inr (rename_columns [(''Date'', ''ds''), (''Adj Close'', ''y'')] df)))"

section \<open>The forecasting model\<close>

text \<open>
  The fitted model is an object of the forecasting library: the program only calls its
  two methods, so the object is the record of these methods. Constructing and fitting it
  is the library's too, and a parameter of \<^verbatim>\<open>train_prophet_model\<close>, lines 19 to 22.
\<close>

record prophet =
  make_future_dataframe :: "int \<Rightarrow> error + frame"
  predict :: "frame \<Rightarrow> error + frame"

definition train_prophet_model ::
  "(string \<Rightarrow> string \<Rightarrow> frame \<Rightarrow> error + prophet) \<Rightarrow> frame \<Rightarrow> error + prophet" where
  "train_prophet_model Prophet_fit df = Prophet_fit ''linear'' ''additive'' df"

text \<open>\<^verbatim>\<open>make_forecast\<close>, lines 26 to 29.\<close>

definition make_forecast :: "prophet \<Rightarrow> int \<Rightarrow> error + frame" where
  "make_forecast model periods =
     (case make_future_dataframe model periods of
        Inl e \<Rightarrow> Inl e
      | Inr future \<Rightarrow> predict model future)"

section \<open>Performance metrics\<close>

text \<open>
  The two metric functions come from the metrics library that the program imports, and
  are written here as the library documents them, on one-dimensional targets: both
  arrays have the same number of samples, hold finite numbers and are not empty, else
  \<^verbatim>\<open>ValueError\<close>; then the average of the absolute, respectively squared, differences.
  A column of timestamps is not a column of numbers: the functions reject it, here with
  \<^verbatim>\<open>TypeError\<close>, and no statement below is about that case.
\<close>

definition check_array :: "column \<Rightarrow> error + real list" where
  "check_array c =
     (case c of
        Stamps ts \<Rightarrow> Inl TypeError
      | Floats vs \<Rightarrow>
          if None \<in> set vs then Inl ValueError
          else if vs = [] then Inl ValueError
          else Inr (map the vs))"

definition check_reg_targets :: "column \<Rightarrow> column \<Rightarrow> error + (real list \<times> real list)" where
  "check_reg_targets y_true y_pred =
     (if col_len y_true \<noteq> col_len y_pred then Inl ValueError
      else case check_array y_true of
             Inl e \<Rightarrow> Inl e
           | Inr t \<Rightarrow> (case check_array y_pred of Inl e \<Rightarrow> Inl e | Inr p \<Rightarrow> Inr (t, p)))"

definition np_average :: "real list \<Rightarrow> real" where
  "np_average xs = sum_list xs / real (length xs)"

definition mean_absolute_error :: "column \<Rightarrow> column \<Rightarrow> error + real" where
  "mean_absolute_error y_true y_pred =
     (case check_reg_targets y_true y_pred of
        Inl e \<Rightarrow> Inl e
      | Inr (t, p) \<Rightarrow> Inr (np_average (map (\<lambda>(yp, yt). \<bar>yp - yt\<bar>) (zip p t))))"

definition mean_squared_error :: "column \<Rightarrow> column \<Rightarrow> error + real" where
  "mean_squared_error y_true y_pred =
     (case check_reg_targets y_true y_pred of
        Inl e \<Rightarrow> Inl e
      | Inr (t, p) \<Rightarrow> Inr (np_average (map (\<lambda>(yt, yp). (yt - yp)\<^sup>2) (zip t p))))"

text \<open>\<^verbatim>\<open>np.sqrt\<close>: NaN below zero.\<close>

definition np_sqrt :: "real \<Rightarrow> pyfloat" where
  "np_sqrt x = (if x < 0 then None else Some (sqrt x))"

record metrics =
  MAE :: pyfloat
  MSE :: pyfloat
  RMSE :: pyfloat

text \<open>\<^verbatim>\<open>calculate_performance_metrics\<close>, lines 33 to 37.\<close>

definition calculate_performance_metrics :: "column \<Rightarrow> column \<Rightarrow> error + metrics" where
  "calculate_performance_metrics actual predicted =
     (case mean_absolute_error actual predicted of
        Inl e \<Rightarrow> Inl e
      | Inr mae \<Rightarrow>
          (case mean_squared_error actual predicted of
             Inl e \<Rightarrow> Inl e
           | Inr mse \<Rightarrow>
               (let rmse = np_sqrt mse in
                Inr \<lparr>MAE = Some mae, MSE = Some mse, RMSE = rmse\<rparr>)))"

text \<open>
  These definitions compute with exact reals: they give the values that the doubles of
  the program approximate. What holds of the program only up to rounding, like the order
  of two metrics that are nearly equal, is not drawn from them: the section on double
  precision computes the same metrics in the arithmetic of the machine.
\<close>

text \<open>
  The same computation on tables. When \<^verbatim>\<open>actual\<close> or \<^verbatim>\<open>predicted\<close> is a table
  of several columns (a name that several columns have), the metric functions take every
  column as one output: the two arguments have the same number of rows, hold finite
  numbers, are not empty and have the same number of columns, else they raise; the
  metric is the average over the columns of the metric of each column. A series counts
  as a table of one column.
\<close>

fun as_table :: "selection \<Rightarrow> nat \<times> column list" where
  "as_table (Series c) = (col_len c, [c])"
| "as_table (Table r cs) = (r, cs)"

fun is_stamps :: "column \<Rightarrow> bool" where
  "is_stamps (Stamps ts) = True"
| "is_stamps (Floats vs) = False"

fun has_nan :: "column \<Rightarrow> bool" where
  "has_nan (Stamps ts) = False"
| "has_nan (Floats vs) = (None \<in> set vs)"

fun numbers :: "column \<Rightarrow> real list" where
  "numbers (Stamps ts) = []"
| "numbers (Floats vs) = map the vs"

definition check_table :: "nat \<times> column list \<Rightarrow> error + real list list" where
  "check_table a =
     (case a of (r, cs) \<Rightarrow>
        if list_ex is_stamps cs then Inl TypeError
        else if list_ex has_nan cs then Inl ValueError
        else if r = 0 \<or> cs = [] then Inl ValueError
        else Inr (map numbers cs))"

definition check_reg_targets_tables ::
  "nat \<times> column list \<Rightarrow> nat \<times> column list \<Rightarrow> error + (real list list \<times> real list list)" where
  "check_reg_targets_tables y_true y_pred =
     (if fst y_true \<noteq> fst y_pred then Inl ValueError
      else case check_table y_true of
             Inl e \<Rightarrow> Inl e
           | Inr t \<Rightarrow>
               (case check_table y_pred of
                  Inl e \<Rightarrow> Inl e
                | Inr p \<Rightarrow> if length t \<noteq> length p then Inl ValueError else Inr (t, p)))"

definition mean_absolute_error_tables ::
  "nat \<times> column list \<Rightarrow> nat \<times> column list \<Rightarrow> error + real" where
  "mean_absolute_error_tables y_true y_pred =
     (case check_reg_targets_tables y_true y_pred of
        Inl e \<Rightarrow> Inl e
      | Inr (t, p) \<Rightarrow>
          Inr (np_average
                 (map (\<lambda>(pc, tc). np_average (map (\<lambda>(yp, yt). \<bar>yp - yt\<bar>) (zip pc tc))) (zip p t))))"

definition mean_squared_error_tables ::
  "nat \<times> column list \<Rightarrow> nat \<times> column list \<Rightarrow> error + real" where
  "mean_squared_error_tables y_true y_pred =
     (case check_reg_targets_tables y_true y_pred of
        Inl e \<Rightarrow> Inl e
      | Inr (t, p) \<Rightarrow>
          Inr (np_average
                 (map (\<lambda>(tc, pc). np_average (map (\<lambda>(yt, yp). (yt - yp)\<^sup>2) (zip tc pc))) (zip t p))))"

definition calculate_performance_metrics_tables ::
  "nat \<times> column list \<Rightarrow> nat \<times> column list \<Rightarrow> error + metrics" where
  "calculate_performance_metrics_tables actual predicted =
     (case mean_absolute_error_tables actual predicted of
        Inl e \<Rightarrow> Inl e
      | Inr mae \<Rightarrow>
          (case mean_squared_error_tables actual predicted of
             Inl e \<Rightarrow> Inl e
           | Inr mse \<Rightarrow>
               (let rmse = np_sqrt mse in
                Inr \<lparr>MAE = Some mae, MSE = Some mse, RMSE = rmse\<rparr>)))"

text \<open>The call of line 116, on whatever lines 114 and 115 selected.\<close>

fun call_calculate_performance_metrics :: "selection \<Rightarrow> selection \<Rightarrow> error + metrics" where
  "call_calculate_performance_metrics (Series a) (Series p) = calculate_performance_metrics a p"
| "call_calculate_performance_metrics actual predicted =
     calculate_performance_metrics_tables (as_table actual) (as_table predicted)"

section \<open>The metrics in double precision\<close>






























section \<open>The application\<close>

text \<open>The drop-down list of line 70 and the dictionary of line 75.\<close>

definition horizon_options :: "string list" where
  "horizon_options = [''1 year'', ''2 years'', ''3 years'', ''5 years'']"

definition horizon_mapping :: "(string \<times> int) list" where
  "horizon_mapping = [(''1 year'', 365), (''2 years'', 730), (''3 years'', 1095), (''5 years'', 1825)]"

text \<open>Line 76: \<^verbatim>\<open>horizon_mapping[forecast_horizon]\<close>; a missing key raises.\<close>

definition forecast_days :: "string \<Rightarrow> error + int" where
  "forecast_days forecast_horizon =
     (case map_of horizon_mapping forecast_horizon of
        None \<Rightarrow> Inl KeyError
      | Some d \<Rightarrow> Inr d)"

text \<open>
  Lines 114 to 116: the actual values are the \<^verbatim>\<open>y\<close> column of the history, the
  predicted ones the first \<^verbatim>\<open>len(df)\<close> values of the forecast's \<^verbatim>\<open>yhat\<close> column.
\<close>

definition performance_metrics :: "frame \<Rightarrow> frame \<Rightarrow> error + metrics" where
  "performance_metrics df forecast =
     (case getitem ''y'' df of
        Inl e \<Rightarrow> Inl e
      | Inr actual \<Rightarrow>
          (case getitem ''yhat'' forecast of
             Inl e \<Rightarrow> Inl e
           | Inr yhat \<Rightarrow>
               (let predicted = slice_to (nrows df) yhat in
                call_calculate_performance_metrics actual predicted)))"

text \<open>
  What the program takes from its environment: the download, the construction and fit of
  the model, and the two plotting functions of the forecasting library.
\<close>

record services =
  yf_download :: "string \<Rightarrow> date \<Rightarrow> date \<Rightarrow> indexed_frame"
  Prophet_fit :: "string \<Rightarrow> string \<Rightarrow> frame \<Rightarrow> error + prophet"
  plot_plotly :: "prophet \<Rightarrow> frame \<Rightarrow> error + figure"
  plot_components_plotly :: "prophet \<Rightarrow> frame \<Rightarrow> error + figure"

text \<open>
  Lines 86 to 131, what is shown once the forecast is there: the first five rows of four
  columns of the forecast (line 90), the two charts (lines 96 and 104) and the metrics
  (lines 114 to 131). The result is the table of line 90 and the metrics; writing them to
  the page is the user interface's.
\<close>

definition show_results :: "services \<Rightarrow> frame \<Rightarrow> prophet \<Rightarrow> frame \<Rightarrow> error + (frame \<times> metrics)" where
  "show_results sv df model forecast =
     (case getitem_list_numbered [''ds'', ''yhat'', ''yhat_lower'', ''yhat_upper''] forecast of
        Inl e \<Rightarrow> Inl e
      | Inr shown \<Rightarrow>
          (case plot_plotly sv model forecast of
             Inl e \<Rightarrow> Inl e
           | Inr fig1 \<Rightarrow>
               (case plot_components_plotly sv model forecast of
                  Inl e \<Rightarrow> Inl e
                | Inr fig2 \<Rightarrow>
                    (case performance_metrics df forecast of
                       Inl e \<Rightarrow> Inl e
                     | Inr m \<Rightarrow> Inr (head shown, m)))))"

text \<open>Lines 79 to 131, what the button runs: fetch, train, forecast, show.\<close>

definition forecast_stock_prices ::
  "services \<Rightarrow> string \<Rightarrow> date \<Rightarrow> date \<Rightarrow> int \<Rightarrow> error + (frame \<times> metrics)" where
  "forecast_stock_prices sv ticker_symbol start_date end_date days =
     (case fetch_stock_data (yf_download sv) ticker_symbol start_date end_date of
        Inl e \<Rightarrow> Inl e
      | Inr df \<Rightarrow>
          (case train_prophet_model (Prophet_fit sv) df of
             Inl e \<Rightarrow> Inl e
           | Inr model \<Rightarrow>
               (case make_forecast model days of
                  Inl e \<Rightarrow> Inl e
                | Inr forecast \<Rightarrow> show_results sv df model forecast)))"

text \<open>
  \<^verbatim>\<open>main\<close>, lines 41 to 131: the inputs of the side bar are the ticker, the two
  dates, the selected horizon and whether the button was pressed. Nothing is computed
  when it was not.
\<close>

definition main ::
  "services \<Rightarrow> string \<Rightarrow> date \<Rightarrow> date \<Rightarrow> string \<Rightarrow> bool \<Rightarrow> error + (frame \<times> metrics) option" where
  "main sv ticker_symbol start_date end_date forecast_horizon button =
     (case forecast_days forecast_horizon of
        Inl e \<Rightarrow> Inl e
      | Inr days \<Rightarrow>
          if button
          then (case forecast_stock_prices sv ticker_symbol start_date end_date days of
                  Inl e \<Rightarrow> Inl e
                | Inr r \<Rightarrow> Inr (Some r))
          else Inr None)"

section \<open>The specification's alignment by timestamp\<close>

text \<open>
  This section follows the words of the specification, not the code: the rows of the
  history and of the forecast as (timestamp, value) pairs, the pairs of an actual and a
  predicted value that carry the same timestamp, and the metrics over these pairs only.
\<close>

fun stamped :: "selection \<Rightarrow> selection \<Rightarrow> (date \<times> pyfloat) list" where
  "stamped (Series (Stamps ts)) (Series (Floats vs)) = zip ts vs"
| "stamped c d = []"

definition spec_matched_pairs :: "frame \<Rightarrow> frame \<Rightarrow> (pyfloat \<times> pyfloat) list" where
  "spec_matched_pairs df forecast =
     (case (getitem ''ds'' df, getitem ''y'' df, getitem ''ds'' forecast, getitem ''yhat'' forecast) of
        (Inr dt, Inr y, Inr ft, Inr yhat) \<Rightarrow>
          concat (map (\<lambda>(t, a). map (\<lambda>(u, p). (a, p)) (filter (\<lambda>(u, p). u = t) (stamped ft yhat)))
                      (stamped dt y))
      | other \<Rightarrow> [])"

definition spec_evaluate :: "frame \<Rightarrow> frame \<Rightarrow> error + metrics" where
  "spec_evaluate df forecast =
     (let pairs = spec_matched_pairs df forecast in
      calculate_performance_metrics (Floats (map fst pairs)) (Floats (map snd pairs)))"

text \<open>The specification's metrics: the means of the absolute and of the squared differences.\<close>

definition spec_mae :: "real list \<Rightarrow> real list \<Rightarrow> real" where
  "spec_mae a p = (\<Sum>i<length a. \<bar>a ! i - p ! i\<bar>) / real (length a)"

definition spec_mse :: "real list \<Rightarrow> real list \<Rightarrow> real" where
  "spec_mse a p = (\<Sum>i<length a. (a ! i - p ! i)\<^sup>2) / real (length a)"

section \<open>Sample inputs\<close>

text \<open>A download that answers every request with the same table.\<close>

definition serve :: "indexed_frame \<Rightarrow> string \<Rightarrow> date \<Rightarrow> date \<Rightarrow> indexed_frame" where
  "serve raw ticker_symbol start_date end_date = raw"

text \<open>A price history of a single day.\<close>

definition one_day :: indexed_frame where
  "one_day = \<lparr>index_name = Some ''Date'', index = [5],
              columns = [(''Close'', [Some 101]), (''Adj Close'', [Some 100]), (''Volume'', [Some 7])]\<rparr>"

text \<open>A price history out of order, with a day twice and a missing price.\<close>

definition shuffled_days :: indexed_frame where
  "shuffled_days = \<lparr>index_name = Some ''Date'', index = [2, 1, 2],
                    columns = [(''Close'', [Some 6, Some 4, Some 8]),
                               (''Adj Close'', [Some 5, None, Some 7])]\<rparr>"

text \<open>A price history of two days, in order.\<close>

definition two_days :: indexed_frame where
  "two_days = \<lparr>index_name = Some ''Date'', index = [1, 2],
               columns = [(''Adj Close'', [Some 10, Some 12])]\<rparr>"

text \<open>The same two days with the later day first.\<close>

definition unordered_days :: indexed_frame where
  "unordered_days = \<lparr>index_name = Some ''Date'', index = [2, 1],
                     columns = [(''Close'', [Some 13, Some 11]), (''Adj Close'', [Some 12, Some 10])]\<rparr>"


text \<open>
  A fitted model that treats the dates as the forecasting library does. The fit refuses a
  history with fewer than two priced rows. The forecast is made for the days of the
  history, each once and in ascending order, followed by the next \<open>periods\<close> days. The
  prediction for day \<open>d\<close> lies on the line \<open>8 + 2 d\<close>, with a band of one on either side:
  on the prices 10 of day 1 and 12 of day 2 it is exact.
\<close>

definition next_days :: "date \<Rightarrow> int \<Rightarrow> date list" where
  "next_days last_day periods = map (\<lambda>k. last_day + k) [1..periods]"

definition line_forecast :: "date list \<Rightarrow> frame" where
  "line_forecast ds =
     \<lparr>nrows = length ds,
      cols = [(''ds'', Stamps ds),
              (''yhat'', Floats (map (\<lambda>d. Some (8 + 2 * real_of_int d)) ds)),
              (''yhat_lower'', Floats (map (\<lambda>d. Some (7 + 2 * real_of_int d)) ds)),
              (''yhat_upper'', Floats (map (\<lambda>d. Some (9 + 2 * real_of_int d)) ds))]\<rparr>"

definition line_model :: "date list \<Rightarrow> prophet" where
  "line_model history =
     \<lparr>make_future_dataframe =
        (\<lambda>periods.
           if periods < 0 then Inl ValueError
           else Inr \<lparr>nrows = length history + nat periods,
                     cols = [(''ds'', Stamps (history @ next_days (last history) periods))]\<rparr>),
      predict =
        (\<lambda>future.
           case getitem ''ds'' future of
             Inr (Series (Stamps ds)) \<Rightarrow> Inr (line_forecast (sort ds))
           | other \<Rightarrow> Inl ValueError)\<rparr>"

definition line_fit :: "string \<Rightarrow> string \<Rightarrow> frame \<Rightarrow> error + prophet" where
  "line_fit growth seasonality_mode df =
     (case (getitem ''ds'' df, getitem ''y'' df) of
        (Inr (Series (Stamps ts)), Inr (Series (Floats ys))) \<Rightarrow>
          if length (filter (\<lambda>y. y \<noteq> None) ys) < 2 then Inl ValueError
          else Inr (line_model (sort (remdups ts)))
      | other \<Rightarrow> Inl ValueError)"

text \<open>Plotting functions that draw every forecast.\<close>

definition draw :: "prophet \<Rightarrow> frame \<Rightarrow> error + figure" where
  "draw model forecast = Inr Figure"

definition line_services :: "indexed_frame \<Rightarrow> services" where
  "line_services raw =
     \<lparr>yf_download = serve raw, Prophet_fit = line_fit,
      plot_plotly = draw, plot_components_plotly = draw\<rparr>"

text \<open>
  What \<^verbatim>\<open>fetch_stock_data\<close> makes of the two days out of order, and the forecast of
  the model fitted on it for a year: the days 1 and 2 of the history, then 365 days.
\<close>

definition unordered_history :: frame where
  "unordered_history =
     \<lparr>nrows = 2, cols = [(''ds'', Stamps [2, 1]), (''y'', Floats [Some 12, Some 10])]\<rparr>"

definition year_forecast :: frame where
  "year_forecast = line_forecast ([1, 2] @ next_days 2 365)"



section \<open>Fetching keeps the rows as they come\<close>



lemma fetch_stock_data_rows:
  assumes "dl ticker_symbol start_date end_date = raw"
    and "''Adj Close'' \<in> set (map fst (columns raw))"
    and "index_name raw \<noteq> Some ''Adj Close''"
  shows "fetch_stock_data dl ticker_symbol start_date end_date =
           Inr \<lparr>nrows = length (index raw),
                cols = ((case index_name raw of
                           None \<Rightarrow> ''index''
                         | Some n \<Rightarrow> if n = ''Date'' then ''ds'' else n),
                        Stamps (index raw))
                       # map (\<lambda>(n, vs). (''y'', Floats vs))
                           (filter (\<lambda>(n, vs). n = ''Adj Close'') (columns raw))\<rparr>"
proof -
  have sel: "getitem_list [''Adj Close''] raw =
               Inr (raw\<lparr>columns := filter (\<lambda>(m, vs). m = ''Adj Close'') (columns raw)\<rparr>)"
    using assms(2) by (simp add: getitem_list_def)
  have names: "set (map fst (filter (\<lambda>(m, vs). m = ''Adj Close'') (columns raw))) = {''Adj Close''}"
    using assms(2) by force
  have ren: "map (\<lambda>(n, c). (case map_of [(''Date'', ''ds''), (''Adj Close'', ''y'')] n of
                               None \<Rightarrow> n | Some n' \<Rightarrow> n', c))
               (map (\<lambda>(n, vs). (n, Floats vs)) (filter (\<lambda>(m, vs). m = ''Adj Close'') (columns raw)))
             = map (\<lambda>(n, vs). (''y'', Floats vs)) (filter (\<lambda>(n, vs). n = ''Adj Close'') (columns raw))"
    by (induction "columns raw" arbitrary: raw) (auto split: prod.splits)
  show ?thesis
  proof (cases "index_name raw")
    case None
    with assms(1) sel names ren show ?thesis
      by (simp add: fetch_stock_data_def reset_index_def rename_columns_def)
  next
    case (Some n)
    with assms(1,3) sel names ren show ?thesis
      by (simp add: fetch_stock_data_def reset_index_def rename_columns_def)
  qed
qed

text \<open>
  Claim C2, as the code has it: \<^verbatim>\<open>fetch_stock_data\<close> has no check of the size of the
  series. For every download that has a column \<^verbatim>\<open>Adj Close\<close> and whose index is not
  itself named \<^verbatim>\<open>Adj Close\<close>, of any number of rows (none and one included), it returns
  a table with as many rows as the download: it does not fail on a short series.
\<close>

theorem fetch_stock_data_any_size:
  assumes "dl ticker_symbol start_date end_date = raw"
    and "''Adj Close'' \<in> set (map fst (columns raw))"
    and "index_name raw \<noteq> Some ''Adj Close''"
  shows "\<exists>df. fetch_stock_data dl ticker_symbol start_date end_date = Inr df
           \<and> nrows df = length (index raw)"
  using assms by (simp add: fetch_stock_data_rows)

theorem fetch_stock_data_any_size_witness:
  "\<exists>df. fetch_stock_data (serve one_day) ''RACE'' 0 1 = Inr df \<and> nrows df = 1"
  using fetch_stock_data_any_size [of "serve one_day" "''RACE''" 0 1 one_day]
  by (simp add: serve_def one_day_def)

text \<open>
  Claim C2 as stated fails: a download of exactly one row is returned as a series of one
  row, not refused.
\<close>

theorem fetch_stock_data_one_row_counterexample:
  "fetch_stock_data (serve one_day) ''RACE'' 0 1 =
     Inr \<lparr>nrows = 1, cols = [(''ds'', Stamps [5]), (''y'', Floats [Some 100])]\<rparr>"
  by (simp add: fetch_stock_data_def getitem_list_def reset_index_def rename_columns_def
      serve_def one_day_def)

text \<open>
  Claim C6, as the code has it: \<^verbatim>\<open>fetch_stock_data\<close> neither sorts, nor drops, nor
  removes duplicates. For every download that has a column \<^verbatim>\<open>Adj Close\<close> and whose
  index is not itself named \<^verbatim>\<open>Adj Close\<close>, the first column of the result is the index
  of the download (named \<^verbatim>\<open>ds\<close> when the index is named \<^verbatim>\<open>Date\<close>), and the
  other columns are the adjusted-close columns of the download, each as a column
  \<^verbatim>\<open>y\<close>; all of them row by row in the order of the download, missing prices and
  repeated timestamps included. So the result is strictly ascending by timestamp exactly
  when the download is.
\<close>

theorem fetch_stock_data_keeps_rows:
  assumes "dl ticker_symbol start_date end_date = raw"
    and "''Adj Close'' \<in> set (map fst (columns raw))"
    and "index_name raw \<noteq> Some ''Adj Close''"
  shows "fetch_stock_data dl ticker_symbol start_date end_date =
           Inr \<lparr>nrows = length (index raw),
                cols = ((case index_name raw of
                           None \<Rightarrow> ''index''
                         | Some n \<Rightarrow> if n = ''Date'' then ''ds'' else n),
                        Stamps (index raw))
                       # map (\<lambda>(n, vs). (''y'', Floats vs))
                           (filter (\<lambda>(n, vs). n = ''Adj Close'') (columns raw))\<rparr>"
  using assms by (rule fetch_stock_data_rows)

theorem fetch_stock_data_keeps_rows_witness:
  "fetch_stock_data (serve two_days) ''RACE'' 0 3 =
     Inr \<lparr>nrows = 2, cols = [(''ds'', Stamps [1, 2]), (''y'', Floats [Some 10, Some 12])]\<rparr>"
  using fetch_stock_data_keeps_rows [of "serve two_days" "''RACE''" 0 3 two_days]
  by (simp add: serve_def two_days_def)

text \<open>
  Claim C6 as stated fails: on a download out of order, with the day 2 twice and a
  missing price, the result has the three rows in the order of the download, which is
  not ascending, with the missing price and both rows of the day 2.
\<close>

theorem fetch_stock_data_unsorted_counterexample:
  "fetch_stock_data (serve shuffled_days) ''RACE'' 0 3 =
     Inr \<lparr>nrows = 3,
          cols = [(''ds'', Stamps [2, 1, 2]), (''y'', Floats [Some 5, None, Some 7])]\<rparr>
   \<and> \<not> sorted_wrt (<) [2, 1, 2 :: date]"
  by (simp add: fetch_stock_data_def getitem_list_def reset_index_def rename_columns_def
      serve_def shuffled_days_def)

section \<open>The metrics on finite values\<close>

lemma sum_list_zip_nth:
  "length xs = length ys \<Longrightarrow>
     sum_list (map f (zip xs ys)) = (\<Sum>i<length xs. f (xs ! i, ys ! i))"
  by (simp add: sum_list_sum_nth atLeast0LessThan)

lemma check_array_finite:
  "xs \<noteq> [] \<Longrightarrow> check_array (Floats (map Some xs)) = Inr xs"
  by (auto simp: check_array_def comp_def)

lemma check_reg_targets_finite:
  assumes "length a = length p" and "a \<noteq> []"
  shows "check_reg_targets (Floats (map Some a)) (Floats (map Some p)) = Inr (a, p)"
proof -
  from assms have "p \<noteq> []" by auto
  with assms show ?thesis
    by (simp add: check_reg_targets_def check_array_finite)
qed

lemma mean_absolute_error_finite:
  assumes "length a = length p" and "a \<noteq> []"
  shows "mean_absolute_error (Floats (map Some a)) (Floats (map Some p)) = Inr (spec_mae a p)"
proof -
  have "sum_list (map (\<lambda>(yp, yt). \<bar>yp - yt\<bar>) (zip p a)) = (\<Sum>i<length a. \<bar>a ! i - p ! i\<bar>)"
    using assms(1) by (simp add: sum_list_zip_nth abs_minus_commute)
  then show ?thesis
    using assms
    by (simp add: mean_absolute_error_def check_reg_targets_finite np_average_def spec_mae_def)
qed

lemma mean_squared_error_finite:
  assumes "length a = length p" and "a \<noteq> []"
  shows "mean_squared_error (Floats (map Some a)) (Floats (map Some p)) = Inr (spec_mse a p)"
proof -
  have "sum_list (map (\<lambda>(yt, yp). (yt - yp)\<^sup>2) (zip a p)) = (\<Sum>i<length a. (a ! i - p ! i)\<^sup>2)"
    using assms(1) by (simp add: sum_list_zip_nth)
  then show ?thesis
    using assms
    by (simp add: mean_squared_error_def check_reg_targets_finite np_average_def spec_mse_def)
qed

lemma spec_mae_nonneg: "0 \<le> spec_mae a p"
  by (simp add: spec_mae_def sum_nonneg)

lemma spec_mse_nonneg: "0 \<le> spec_mse a p"
  by (simp add: spec_mse_def sum_nonneg)

lemma calculate_performance_metrics_finite:
  assumes "length a = length p" and "a \<noteq> []"
  shows "calculate_performance_metrics (Floats (map Some a)) (Floats (map Some p)) =
           Inr \<lparr>MAE = Some (spec_mae a p), MSE = Some (spec_mse a p),
                RMSE = Some (sqrt (spec_mse a p))\<rparr>"
  using assms spec_mse_nonneg [of a p]
  by (simp add: calculate_performance_metrics_def mean_absolute_error_finite
      mean_squared_error_finite np_sqrt_def)

lemma sum_upto_2: "(\<Sum>i<2. f i) = f 0 + (f (Suc 0) :: real)"
  by (simp add: numeral_2_eq_2)

text \<open>
  Claim C4: on two sequences of finite values of the same length, not empty, the metrics
  are the mean of the absolute differences, the mean of the squared differences and the
  square root of the latter, whose square is the mean squared error again. Floats are
  reals here, so the last equation is exact.
\<close>

theorem metrics_are_means:
  assumes "length a = length p" and "a \<noteq> []"
  shows "calculate_performance_metrics (Floats (map Some a)) (Floats (map Some p)) =
           Inr \<lparr>MAE = Some (spec_mae a p), MSE = Some (spec_mse a p),
                RMSE = Some (sqrt (spec_mse a p))\<rparr>
         \<and> (sqrt (spec_mse a p))\<^sup>2 = spec_mse a p"
  using assms spec_mse_nonneg [of a p]
  by (simp add: calculate_performance_metrics_finite)

theorem metrics_are_means_witness:
  "calculate_performance_metrics (Floats [Some 3, Some 5]) (Floats [Some 1, Some 7]) =
     Inr \<lparr>MAE = Some 2, MSE = Some 4, RMSE = Some 2\<rparr>"
  using metrics_are_means [of "[3, 5]" "[1, 7]"]
  by (simp add: spec_mae_def spec_mse_def sum_upto_2)

section \<open>Series and tables\<close>

text \<open>
  On two series the computation on tables is the computation on series, errors included:
  a series is a table of one column.
\<close>

lemma check_table_series:
  "r = col_len c \<Longrightarrow> check_table (r, [c]) = map_sum id (\<lambda>xs. [xs]) (check_array c)"
  by (cases c) (auto simp: check_table_def check_array_def)

lemma check_reg_targets_tables_series:
  "check_reg_targets_tables (col_len a, [a]) (col_len p, [p]) =
     map_sum id (\<lambda>(t, p). ([t], [p])) (check_reg_targets a p)"
  by (auto simp: check_reg_targets_tables_def check_reg_targets_def check_table_series
      split: sum.splits)

lemma tables_agree_on_series:
  "calculate_performance_metrics_tables (as_table (Series a)) (as_table (Series p)) =
     calculate_performance_metrics a p"
  by (auto simp: calculate_performance_metrics_tables_def calculate_performance_metrics_def
      mean_absolute_error_tables_def mean_absolute_error_def
      mean_squared_error_tables_def mean_squared_error_def
      check_reg_targets_tables_series np_average_def split: sum.splits)

section \<open>Which values are compared\<close>




text \<open>The run on the two days out of order, step by step.\<close>

lemma fetch_unordered:
  "fetch_stock_data (serve unordered_days) ''RACE'' 0 3 = Inr unordered_history"
  by (simp add: fetch_stock_data_def getitem_list_def reset_index_def rename_columns_def
      serve_def unordered_days_def unordered_history_def)

lemma train_unordered:
  "train_prophet_model line_fit unordered_history = Inr (line_model [1, 2])"
  by (simp add: train_prophet_model_def line_fit_def getitem_def unordered_history_def)

lemma next_days_later: "x \<in> set (next_days d n) \<Longrightarrow> d < x"
  by (auto simp: next_days_def)

lemma next_days_sorted: "sorted (next_days d n)"
  by (simp add: next_days_def sorted_map sorted_wrt_mono_rel [of _ "(<)" "\<lambda>x y. d + x \<le> d + y"]
      sorted_upto)

lemma sort_line_dates: "sort ([1, 2] @ next_days 2 n) = [1, 2] @ next_days 2 n"
proof -
  have "sorted ([1, 2] @ next_days 2 n)"
    using next_days_sorted [of 2 n]
    by (auto dest!: next_days_later)
  then show ?thesis
    by (rule sorted_sort_id)
qed

lemma make_forecast_line:
  "0 \<le> n \<Longrightarrow> make_forecast (line_model [1, 2]) n = Inr (line_forecast ([1, 2] @ next_days 2 n))"
  using sort_line_dates [of n]
  by (simp add: make_forecast_def line_model_def getitem_def)

lemma forecast_unordered:
  "make_forecast (line_model [1, 2]) 365 = Inr year_forecast"
  by (simp add: make_forecast_line year_forecast_def)

lemma no_later_match:
  "t \<le> d \<Longrightarrow> filter (\<lambda>(u, p). u = t) (zip (next_days d n) vs) = []"
  by (auto simp: filter_empty_conv dest!: set_zip_leftD next_days_later)

lemma metrics_unordered:
  "performance_metrics unordered_history year_forecast =
     Inr \<lparr>MAE = Some 2, MSE = Some 4, RMSE = Some 2\<rparr>"
  by (simp add: performance_metrics_def getitem_def unordered_history_def year_forecast_def
      line_forecast_def calculate_performance_metrics_def mean_absolute_error_def
      mean_squared_error_def check_reg_targets_def check_array_def np_average_def np_sqrt_def)

lemma spec_unordered:
  "spec_evaluate unordered_history year_forecast =
     Inr \<lparr>MAE = Some 0, MSE = Some 0, RMSE = Some 0\<rparr>"
  by (simp add: spec_evaluate_def spec_matched_pairs_def getitem_def unordered_history_def
      year_forecast_def line_forecast_def no_later_match
      calculate_performance_metrics_def mean_absolute_error_def
      mean_squared_error_def check_reg_targets_def check_array_def np_average_def np_sqrt_def)

lemma head_year:
  "getitem_list_numbered [''ds'', ''yhat'', ''yhat_lower'', ''yhat_upper''] year_forecast = Inr year_forecast"
  by (simp add: getitem_list_numbered_def year_forecast_def line_forecast_def)

lemma head_year2:
  "head year_forecast =
      \<lparr>nrows = 5,
        cols = [(''ds'', Stamps [1, 2, 3, 4, 5]),
                (''yhat'', Floats [Some 10, Some 12, Some 14, Some 16, Some 18]),
                (''yhat_lower'', Floats [Some 9, Some 11, Some 13, Some 15, Some 17]),
                (''yhat_upper'', Floats [Some 11, Some 13, Some 15, Some 17, Some 19])]\<rparr>"
  by (simp add: head_def year_forecast_def line_forecast_def next_days_def upto_rec1 [of 1 365]
      upto_rec1 [of 2 365] upto_rec1 [of 3 365] del: upto_rec_numeral)

lemma main_unordered:
  "main (line_services unordered_days) ''RACE'' 0 3 ''1 year'' True =
       Inr (Some (\<lparr>nrows = 5,
                    cols = [(''ds'', Stamps [1, 2, 3, 4, 5]),
                            (''yhat'', Floats [Some 10, Some 12, Some 14, Some 16, Some 18]),
                            (''yhat_lower'', Floats [Some 9, Some 11, Some 13, Some 15, Some 17]),
                            (''yhat_upper'', Floats [Some 11, Some 13, Some 15, Some 17, Some 19])]\<rparr>,
                  \<lparr>MAE = Some 2, MSE = Some 4, RMSE = Some 2\<rparr>))"
  by (simp add: main_def forecast_days_def horizon_mapping_def forecast_stock_prices_def
      line_services_def fetch_unordered train_unordered forecast_unordered show_results_def
      head_year head_year2 draw_def metrics_unordered)

text \<open>
  Claim C1 fails on the code, at a download whose rows are not in the order of their
  dates: day 2 with price 12, then day 1 with price 10. The model is fitted on these two
  rows and forecasts a year: its forecast has the days of the history in ascending order,
  1 and 2, then 365 days, and its predictions 10 for day 1 and 12 for day 2 are exact.
  Line 115 takes the first two predictions as those of the history, and the metric
  functions compare them by position with the prices in the order of the download: the
  price 12 of day 2 with the prediction 10 of day 1, the price 10 of day 1 with the
  prediction 12 of day 2. The run shows an error of 2 where the pairs with matching
  timestamps have none.
\<close>

theorem positional_slice_on_unordered_history:
  "fetch_stock_data (serve unordered_days) ''RACE'' 0 3 = Inr unordered_history
   \<and> train_prophet_model line_fit unordered_history = Inr (line_model [1, 2])
   \<and> make_forecast (line_model [1, 2]) 365 = Inr year_forecast
   \<and> performance_metrics unordered_history year_forecast =
       Inr \<lparr>MAE = Some 2, MSE = Some 4, RMSE = Some 2\<rparr>
   \<and> spec_evaluate unordered_history year_forecast =
       Inr \<lparr>MAE = Some 0, MSE = Some 0, RMSE = Some 0\<rparr>
   \<and> main (line_services unordered_days) ''RACE'' 0 3 ''1 year'' True =
       Inr (Some (\<lparr>nrows = 5,
                    cols = [(''ds'', Stamps [1, 2, 3, 4, 5]),
                            (''yhat'', Floats [Some 10, Some 12, Some 14, Some 16, Some 18]),
                            (''yhat_lower'', Floats [Some 9, Some 11, Some 13, Some 15, Some 17]),
                            (''yhat_upper'', Floats [Some 11, Some 13, Some 15, Some 17, Some 19])]\<rparr>,
                  \<lparr>MAE = Some 2, MSE = Some 4, RMSE = Some 2\<rparr>))"
  by (simp only: fetch_unordered train_unordered forecast_unordered metrics_unordered
      spec_unordered main_unordered simp_thms)

section \<open>A history without rows\<close>










text \<open>The run on the two days in order.\<close>

lemma fetch_two_days:
  "fetch_stock_data (serve two_days) ''RACE'' 0 3 =
     Inr \<lparr>nrows = 2, cols = [(''ds'', Stamps [1, 2]), (''y'', Floats [Some 10, Some 12])]\<rparr>"
  by (simp add: fetch_stock_data_def getitem_list_def reset_index_def rename_columns_def
      serve_def two_days_def)

lemma train_two_days:
  "train_prophet_model line_fit
     \<lparr>nrows = 2, cols = [(''ds'', Stamps [1, 2]), (''y'', Floats [Some 10, Some 12])]\<rparr> =
     Inr (line_model [1, 2])"
  by (simp add: train_prophet_model_def line_fit_def getitem_def)




section \<open>The forecast horizon\<close>

text \<open>
  Claim C9: the selections of the drop-down list give the four horizons 365, 730, 1095
  and 1825 and no other, so not 0. When the button is pressed with one of these
  selections, the run is the run of the forecast with that number of days; and once the
  history is fetched and the model fitted, that number is what the model's
  \<^verbatim>\<open>make_future_dataframe\<close> is called with.
\<close>

theorem forecast_days_four_values:
  "forecast_days ` set horizon_options = {Inr 365, Inr 730, Inr 1095, Inr 1825}
   \<and> Inr 0 \<notin> forecast_days ` set horizon_options
   \<and> (forecast_horizon \<in> set horizon_options \<longrightarrow>
        (\<exists>days \<in> {365, 730, 1095, 1825}.
           forecast_days forecast_horizon = Inr days
           \<and> main sv ticker_symbol start_date end_date forecast_horizon True =
               (case forecast_stock_prices sv ticker_symbol start_date end_date days of
                  Inl e \<Rightarrow> Inl e
                | Inr r \<Rightarrow> Inr (Some r))
           \<and> (fetch_stock_data (yf_download sv) ticker_symbol start_date end_date = Inr df \<longrightarrow>
              train_prophet_model (Prophet_fit sv) df = Inr model \<longrightarrow>
                forecast_stock_prices sv ticker_symbol start_date end_date days =
                  (case make_future_dataframe model days of
                     Inl e \<Rightarrow> Inl e
                   | Inr future \<Rightarrow>
                       (case predict model future of
                          Inl e \<Rightarrow> Inl e
                        | Inr forecast \<Rightarrow> show_results sv df model forecast)))))"
  by (auto simp: forecast_days_def horizon_options_def horizon_mapping_def main_def
      forecast_stock_prices_def make_forecast_def split: sum.splits)

theorem forecast_days_four_values_witness:
  "''2 years'' \<in> set horizon_options
   \<and> forecast_days ''2 years'' = Inr 730
   \<and> main (line_services two_days) ''RACE'' 0 3 ''2 years'' True =
       (case forecast_stock_prices (line_services two_days) ''RACE'' 0 3 730 of
          Inl e \<Rightarrow> Inl e
        | Inr r \<Rightarrow> Inr (Some r))
   \<and> forecast_stock_prices (line_services two_days) ''RACE'' 0 3 730 =
       (case make_future_dataframe (line_model [1, 2]) 730 of
          Inl e \<Rightarrow> Inl e
        | Inr future \<Rightarrow>
            (case predict (line_model [1, 2]) future of
               Inl e \<Rightarrow> Inl e
             | Inr forecast \<Rightarrow>
                 show_results (line_services two_days)
                   \<lparr>nrows = 2, cols = [(''ds'', Stamps [1, 2]), (''y'', Floats [Some 10, Some 12])]\<rparr>
                   (line_model [1, 2]) forecast))
   \<and> make_forecast (line_model [1, 2]) 730 = Inr (line_forecast ([1, 2] @ next_days 2 730))
   \<and> nrows (line_forecast ([1, 2] @ next_days 2 730)) = 732"
  using forecast_days_four_values [of "''2 years''" "line_services two_days" "''RACE''" 0 3
      "\<lparr>nrows = 2, cols = [(''ds'', Stamps [1, 2]), (''y'', Floats [Some 10, Some 12])]\<rparr>"
      "line_model [1, 2]"]
    fetch_two_days train_two_days
  by (simp add: horizon_options_def forecast_days_def horizon_mapping_def line_services_def
      make_forecast_line line_forecast_def next_days_def)

section \<open>The order of the metrics in double precision\<close>




























end
